theory Spec2Isabelle
  imports Complex_Main
begin

section \<open>JavaScript strings and values\<close>

text \<open>
  A JavaScript string is a sequence of UTF-16 code units; \<open>length\<close>, \<open>substring\<close> and the
  regular expressions of the sources count code units. The model takes \<^typ>\<open>string\<close> with one
  \<^typ>\<open>char\<close> per code unit, which covers the strings whose code units are below 256
  (Latin-1). Every statement below is about such strings.
\<close>

abbreviation NL :: char where "NL \<equiv> CHR 0x0A"
abbreviation DQ :: char where "DQ \<equiv> CHR 0x22"
abbreviation BS :: char where "BS \<equiv> CHR 0x5C"
abbreviation BQ :: char where "BQ \<equiv> CHR 0x60"
abbreviation SQ :: char where "SQ \<equiv> CHR 0x27"

text \<open>
  The characters matched by \<^verbatim>\<open>\s\<close> and stripped by \<^verbatim>\<open>trim()\<close>: ECMAScript's WhiteSpace and
  LineTerminator productions, of which TAB, LF, VT, FF, CR, SP and NBSP are below 256.
\<close>

definition js_whitespace :: "char \<Rightarrow> bool" where
  "js_whitespace c =
     (c = CHR 0x09 \<or> c = CHR 0x0A \<or> c = CHR 0x0B \<or> c = CHR 0x0C \<or> c = CHR 0x0D \<or>
      c = CHR 0x20 \<or> c = CHR 0xA0)"

text \<open>\<^verbatim>\<open>s.trim()\<close>\<close>

definition trim :: "string \<Rightarrow> string" where
  "trim s = rev (dropWhile js_whitespace (rev (dropWhile js_whitespace s)))"

text \<open>
  \<^verbatim>\<open>s.toLowerCase()\<close>: below 256 the upper-case letters are A-Z and 0xC0-0xDE without the
  multiplication sign 0xD7; each maps to the code unit 0x20 above it.
\<close>

definition upper_chars :: "char list" where
  "upper_chars = ''ABCDEFGHIJKLMNOPQRSTUVWXYZ'' @
     [CHR 0xC0, CHR 0xC1, CHR 0xC2, CHR 0xC3, CHR 0xC4, CHR 0xC5, CHR 0xC6, CHR 0xC7,
      CHR 0xC8, CHR 0xC9, CHR 0xCA, CHR 0xCB, CHR 0xCC, CHR 0xCD, CHR 0xCE, CHR 0xCF,
      CHR 0xD0, CHR 0xD1, CHR 0xD2, CHR 0xD3, CHR 0xD4, CHR 0xD5, CHR 0xD6, CHR 0xD8,
      CHR 0xD9, CHR 0xDA, CHR 0xDB, CHR 0xDC, CHR 0xDD, CHR 0xDE]"

definition lower_chars :: "char list" where
  "lower_chars = ''abcdefghijklmnopqrstuvwxyz'' @
     [CHR 0xE0, CHR 0xE1, CHR 0xE2, CHR 0xE3, CHR 0xE4, CHR 0xE5, CHR 0xE6, CHR 0xE7,
      CHR 0xE8, CHR 0xE9, CHR 0xEA, CHR 0xEB, CHR 0xEC, CHR 0xED, CHR 0xEE, CHR 0xEF,
      CHR 0xF0, CHR 0xF1, CHR 0xF2, CHR 0xF3, CHR 0xF4, CHR 0xF5, CHR 0xF6, CHR 0xF8,
      CHR 0xF9, CHR 0xFA, CHR 0xFB, CHR 0xFC, CHR 0xFD, CHR 0xFE]"

definition lower_char :: "char \<Rightarrow> char" where
  "lower_char c = (case map_of (zip upper_chars lower_chars) c of Some d \<Rightarrow> d | None \<Rightarrow> c)"

definition toLowerCase :: "string \<Rightarrow> string" where
  "toLowerCase s = map lower_char s"

text \<open>\<^verbatim>\<open>s.substring(0, n)\<close>\<close>

definition substring0 :: "nat \<Rightarrow> string \<Rightarrow> string" where
  "substring0 n s = take n s"

text \<open>\<^verbatim>\<open>xs.join(sep)\<close>\<close>

fun join :: "string \<Rightarrow> string list \<Rightarrow> string" where
  "join sep [] = []"
| "join sep [x] = x"
| "join sep (x # y # ys) = x @ sep @ join sep (y # ys)"

text \<open>
  \<^verbatim>\<open>s.replace(/[<>]/g, '')\<close>: the scan copies every character that is neither angle bracket.
\<close>

fun remove_angle :: "string \<Rightarrow> string" where
  "remove_angle [] = []"
| "remove_angle (c # cs) =
     (if c = CHR ''<'' \<or> c = CHR ''>'' then remove_angle cs else c # remove_angle cs)"

text \<open>
  \<^verbatim>\<open>s.replace(/\n{3,}/g, '\n\n')\<close>: at each position the greedy match takes the whole run of
  line feeds when it has three or more, writes two, and the scan resumes after the run;
  where no match starts the character is copied and the scan moves one position on.
\<close>

function collapse_newlines :: "string \<Rightarrow> string" where
  "collapse_newlines [] = []"
| "collapse_newlines (c # cs) =
     (if c = NL \<and> 3 \<le> length (takeWhile (\<lambda>x. x = NL) (c # cs))
      then NL # NL # collapse_newlines (dropWhile (\<lambda>x. x = NL) cs)
      else c # collapse_newlines cs)"
  by pat_completeness auto
termination
  by (relation "measure length") (auto simp: length_dropWhile_le less_Suc_eq_le)

text \<open>
  \<^verbatim>\<open>s.replace(/\s+/g, rep)\<close>: every maximal run of white space becomes one copy of \<open>rep\<close>.
\<close>

function replace_ws_runs :: "string \<Rightarrow> string \<Rightarrow> string" where
  "replace_ws_runs rep [] = []"
| "replace_ws_runs rep (c # cs) =
     (if js_whitespace c then rep @ replace_ws_runs rep (dropWhile js_whitespace cs)
      else c # replace_ws_runs rep cs)"
  by pat_completeness auto
termination
  by (relation "measure (\<lambda>(rep, s). length s)") (auto simp: length_dropWhile_le less_Suc_eq_le)

text \<open>\<^verbatim>\<open>s.replace(/[^a-z0-9\s]/g, '')\<close>\<close>

definition is_lower_alnum :: "char \<Rightarrow> bool" where
  "is_lower_alnum c = (c \<in> set ''abcdefghijklmnopqrstuvwxyz0123456789'')"

definition keep_alnum_ws :: "string \<Rightarrow> string" where
  "keep_alnum_ws s = filter (\<lambda>c. is_lower_alnum c \<or> js_whitespace c) s"

text \<open>
  Property lookup on an object literal, \<^verbatim>\<open>obj[key]\<close>: an own property if the literal has one,
  otherwise a member inherited from \<^verbatim>\<open>Object.prototype\<close>, otherwise \<^verbatim>\<open>undefined\<close>.
  The inherited members are functions, except \<^verbatim>\<open>__proto__\<close>, whose value for an object literal
  is \<^verbatim>\<open>Object.prototype\<close> itself; all of them are truthy.
\<close>

datatype js_val = Str string | Inherited string

definition object_prototype_names :: "string list" where
  "object_prototype_names =
     [''constructor'', ''__defineGetter__'', ''__defineSetter__'', ''hasOwnProperty'',
      ''__lookupGetter__'', ''__lookupSetter__'', ''isPrototypeOf'', ''propertyIsEnumerable'',
      ''toString'', ''valueOf'', ''__proto__'', ''toLocaleString'']"

definition js_get :: "(string \<times> string) list \<Rightarrow> string \<Rightarrow> js_val option" where
  "js_get obj k =
     (case map_of obj k of
        Some v \<Rightarrow> Some (Str v)
      | None \<Rightarrow> if k \<in> set object_prototype_names then Some (Inherited k) else None)"

text \<open>\<^verbatim>\<open>a || b\<close> where \<open>a\<close> is the result of a lookup: the empty string and \<^verbatim>\<open>undefined\<close> are falsy.\<close>

definition js_or :: "js_val option \<Rightarrow> js_val \<Rightarrow> js_val" where
  "js_or a b = (case a of None \<Rightarrow> b | Some (Str s) \<Rightarrow> if s = [] then b else Str s
                | Some (Inherited k) \<Rightarrow> Inherited k)"

text \<open>
  String conversion, as a template literal applies it. A native function prints as
  \<^verbatim>\<open>function NAME() { [native code] }\<close> on V8 (the server runs on Node), the constructor
  under the name \<^verbatim>\<open>Object\<close>; \<^verbatim>\<open>Object.prototype\<close> prints as \<^verbatim>\<open>[object Object]\<close>.
\<close>

definition to_string :: "js_val \<Rightarrow> string" where
  "to_string v =
     (case v of
        Str s \<Rightarrow> s
      | Inherited k \<Rightarrow>
          if k = ''__proto__'' then ''[object Object]''
          else ''function '' @ (if k = ''constructor'' then ''Object'' else k) @
               ''() { [native code] }'')"

section \<open>Utility functions (server/src/utils/index.ts)\<close>

record GenerationRequest =
  jobId :: string
  requirements :: string
  framework :: string
  language :: string

text \<open>
  \<^verbatim>\<open>Partial<GenerationRequest>\<close>, and the body of a submission: a field may be absent
  (\<^verbatim>\<open>undefined\<close>).
\<close>

record PartialRequest =
  p_requirements :: "string option"
  p_framework :: "string option"
  p_language :: "string option"

definition as_partial :: "GenerationRequest \<Rightarrow> PartialRequest" where
  "as_partial r =
     \<lparr>p_requirements = Some (requirements r), p_framework = Some (framework r),
      p_language = Some (language r)\<rparr>"

text \<open>\<^verbatim>\<open>!x\<close> for an optional string: absent or empty.\<close>

definition falsy :: "string option \<Rightarrow> bool" where
  "falsy x = (case x of None \<Rightarrow> True | Some s \<Rightarrow> s = [])"

definition extensions :: "(string \<times> string) list" where
  "extensions =
     [(''javascript'', ''js''), (''typescript'', ''ts''), (''python'', ''py''),
      (''java'', ''java''), (''csharp'', ''cs''), (''cpp'', ''cpp''), (''c'', ''c''),
      (''go'', ''go''), (''rust'', ''rs''), (''php'', ''php''), (''ruby'', ''rb''),
      (''swift'', ''swift''), (''kotlin'', ''kt'')]"

definition getFileExtension :: "string \<Rightarrow> js_val" where
  "getFileExtension lang = js_or (js_get extensions (toLowerCase lang)) (Str ''txt'')"

definition validateGenerationRequest :: "PartialRequest \<Rightarrow> string list" where
  "validateGenerationRequest request =
     (if falsy (p_requirements request) \<or> length (trim (the (p_requirements request))) = 0
      then [''Requirements are required and cannot be empty''] else []) @
     (if falsy (p_framework request) \<or> length (trim (the (p_framework request))) = 0
      then [''Framework is required and cannot be empty''] else []) @
     (if falsy (p_language request) \<or> length (trim (the (p_language request))) = 0
      then [''Language is required and cannot be empty''] else []) @
     (if \<not> falsy (p_requirements request) \<and> 10000 < length (the (p_requirements request))
      then [''Requirements are too long (maximum 10,000 characters)''] else [])"

definition sanitizeInput :: "string \<Rightarrow> string" where
  "sanitizeInput input = substring0 10000 (collapse_newlines (remove_angle (trim input)))"

text \<open>A template literal spanning several lines, each line ended by a line feed.\<close>

definition text_lines :: "string list \<Rightarrow> string" where
  "text_lines ls = concat (map (\<lambda>l. l @ [NL]) ls)"

definition generateReadme :: "GenerationRequest \<Rightarrow> string \<Rightarrow> string" where
  "generateReadme request codeContent =
     text_lines
      [''# '' @ framework request @ '' Application'',
       [],
       ''## Description'',
       requirements request,
       [],
       ''## Technology Stack'',
       ''- **Framework:** '' @ framework request,
       ''- **Language:** '' @ language request,
       [],
       ''## Installation'',
       [],
       [BQ, BQ, BQ] @ ''bash'',
       ''npm install'',
       [BQ, BQ, BQ],
       [],
       ''## Usage'',
       [],
       [BQ, BQ, BQ] @ ''bash'',
       ''npm start'',
       [BQ, BQ, BQ],
       [],
       ''## Features'',
       ''- Production-ready code'',
       ''- Modern architecture'',
       ''- Comprehensive testing'',
       ''- Security best practices'',
       [],
       ''## Generated by CrewCodeGen'',
       ''This application was generated using AI-powered multi-agent collaboration.'']"

text \<open>
  \<^verbatim>\<open>JSON.stringify\<close> of a string: the quote, the backslash and the control characters are
  escaped, every other code unit is copied.
\<close>

definition hex_digit :: "nat \<Rightarrow> char" where
  "hex_digit k = ''0123456789abcdef'' ! (k mod 16)"

definition json_escape :: "char \<Rightarrow> string" where
  "json_escape c =
     (if c = DQ then [BS, DQ]
      else if c = BS then [BS, BS]
      else if c = CHR 0x08 then [BS, CHR ''b'']
      else if c = CHR 0x0C then [BS, CHR ''f'']
      else if c = CHR 0x0A then [BS, CHR ''n'']
      else if c = CHR 0x0D then [BS, CHR ''r'']
      else if c = CHR 0x09 then [BS, CHR ''t'']
      else if (of_char c :: nat) < 32
        then [BS, CHR ''u'', CHR ''0'', CHR ''0'',
              hex_digit ((of_char c :: nat) div 16), hex_digit (of_char c)]
      else [c])"

definition json_quote :: "string \<Rightarrow> string" where
  "json_quote s = [DQ] @ concat (map json_escape s) @ [DQ]"

text \<open>One \<^verbatim>\<open>"key": "value"\<close> member at an indentation, as \<^verbatim>\<open>JSON.stringify(_, null, 2)\<close> prints it.\<close>

definition json_member :: "string \<Rightarrow> string \<Rightarrow> string \<Rightarrow> string" where
  "json_member indent k v = indent @ json_quote k @ '': '' @ json_quote v"

definition generatePackageJson :: "GenerationRequest \<Rightarrow> string" where
  "generatePackageJson request =
     (let packageName =
            substring0 50 (replace_ws_runs ''-'' (keep_alnum_ws (toLowerCase (requirements request))))
      in join [NL]
        [''{'',
         json_member ''  '' ''name'' (if packageName = [] then ''generated-app'' else packageName) @ '','',
         json_member ''  '' ''version'' ''1.0.0'' @ '','',
         json_member ''  '' ''description'' (substring0 200 (requirements request)) @ '','',
         json_member ''  '' ''main'' (''main.'' @ to_string (getFileExtension (language request))) @ '','',
         ''  '' @ json_quote ''scripts'' @ '': {'',
         json_member ''    '' ''start'' ''node main.js'' @ '','',
         json_member ''    '' ''dev'' ''nodemon main.js'' @ '','',
         json_member ''    '' ''test'' ''jest'' @ '','',
         json_member ''    '' ''build'' ''tsc'',
         ''  },'',
         ''  '' @ json_quote ''keywords'' @ '': ['',
         ''    '' @ json_quote (framework request) @ '','',
         ''    '' @ json_quote (language request) @ '','',
         ''    '' @ json_quote ''generated'' @ '','',
         ''    '' @ json_quote ''ai'',
         ''  ],'',
         json_member ''  '' ''author'' ''CrewCodeGen'' @ '','',
         json_member ''  '' ''license'' ''MIT'',
         ''}''])"

text \<open>
  \<open>compileCodeFiles\<close>: \<^verbatim>\<open>forEach\<close> over the agent outputs, assigning into the object
  \<^verbatim>\<open>files\<close>; a later assignment to a key replaces the earlier one.
\<close>

record AgentOutput =
  out_role :: string
  content :: string

definition compile_step :: "GenerationRequest \<Rightarrow> js_val \<Rightarrow> AgentOutput \<Rightarrow>
    (string \<rightharpoonup> string) \<Rightarrow> (string \<rightharpoonup> string)" where
  "compile_step request fileExtension out files =
     (let r = toLowerCase (out_role out) in
      if r = ''product manager'' then files(''PROJECT_SPECIFICATION.md'' \<mapsto> content out)
      else if r = ''solution architect'' then files(''ARCHITECTURE.md'' \<mapsto> content out)
      else if r = ''senior developer'' then
        files(''main.'' @ to_string fileExtension \<mapsto> content out,
              ''README.md'' \<mapsto> generateReadme request (content out),
              ''package.json'' \<mapsto> generatePackageJson request)
      else if r = ''qa engineer'' then
        files(''tests.'' @ to_string fileExtension \<mapsto> content out,
              ''TEST_PLAN.md'' \<mapsto> content out)
      else files(replace_ws_runs ''_'' (toLowerCase (out_role out)) @ ''.md'' \<mapsto> content out))"

definition compileCodeFiles :: "AgentOutput list \<Rightarrow> GenerationRequest \<Rightarrow> (string \<rightharpoonup> string)" where
  "compileCodeFiles agentOutputs request =
     fold (compile_step request (getFileExtension (language request))) agentOutputs Map.empty"

text \<open>
  \<open>createErrorResponse\<close> and \<open>createSuccessResponse\<close>; the \<^verbatim>\<open>timestamp\<close> member of the
  response is left out.
\<close>

datatype 'a response = ErrorResponse string | SuccessResponse 'a

section \<open>Agents (server/services/agents.ts)\<close>

text \<open>
  The class \<open>AIAgent\<close>. Its \<^verbatim>\<open>tools\<close> member (a list of functions, always empty here) is left
  out.
\<close>

record AIAgent =
  agent_id :: string
  role :: string
  goal :: string
  backstory :: string
  verbose :: bool
  allowDelegation :: bool
  systemPrompt :: string

definition generateSystemPrompt :: "string \<Rightarrow> string \<Rightarrow> string \<Rightarrow> string" where
  "generateSystemPrompt r g b = join [NL]
     [''You are a '' @ r @ '' AI agent.'',
      [],
      ''Role: '' @ r,
      ''Goal: '' @ g,
      ''Backstory: '' @ b,
      [],
      ''Your responsibilities:'',
      ''- Focus on your specific role and expertise'',
      ''- Provide detailed, actionable responses'',
      ''- Consider the context from previous agents when available'',
      ''- Maintain professional standards and best practices'',
      ''- Be thorough and comprehensive in your analysis'',
      [],
      ''Always respond with clear, structured output that the next agent or final user can immediately understand and act upon.'']"

text \<open>The constructor, for a configuration that gives id, role, goal and backstory only.\<close>

definition new_AIAgent :: "string \<Rightarrow> string \<Rightarrow> string \<Rightarrow> string \<Rightarrow> AIAgent" where
  "new_AIAgent i r g b =
     \<lparr>agent_id = i, role = r, goal = g, backstory = b, verbose = False,
      allowDelegation = False, systemPrompt = generateSystemPrompt r g b\<rparr>"

definition createAgents :: "AIAgent list" where
  "createAgents =
     [new_AIAgent ''product_manager'' ''Product Manager''
        ''Analyze requirements and create comprehensive project specifications''
        ''Experienced in translating business requirements into technical specifications with expertise in project planning and stakeholder management.'',
      new_AIAgent ''solution_architect'' ''Solution Architect''
        ''Design scalable system architecture and technical blueprints''
        ''Seasoned architect with deep expertise in modern software architecture patterns, cloud technologies, and scalable system design.'',
      new_AIAgent ''senior_developer'' ''Senior Developer''
        ''Implement clean, production-ready code following best practices''
        ''Expert developer with extensive experience in multiple programming languages and frameworks, focused on code quality and maintainability.'',
      new_AIAgent ''qa_engineer'' ''QA Engineer''
        ''Create comprehensive test suites and ensure code quality''
        ''Expert in testing methodologies, automation frameworks, and quality assurance processes with focus on catching issues early.'']"

text \<open>
  The four canned responses of \<open>generateRoleSpecificResponse\<close> are template literals without
  interpolation, some two hundred lines of Markdown with characters above 255. They are a
  parameter of the model.
\<close>

record role_templates =
  pm_response :: string
  sa_response :: string
  sd_response :: string
  qa_response :: string

definition responses :: "role_templates \<Rightarrow> (string \<times> string) list" where
  "responses t =
     [(''Product Manager'', pm_response t), (''Solution Architect'', sa_response t),
      (''Senior Developer'', sd_response t), (''QA Engineer'', qa_response t)]"

definition generateRoleSpecificResponse ::
    "role_templates \<Rightarrow> AIAgent \<Rightarrow> js_val \<Rightarrow> string option \<Rightarrow> js_val" where
  "generateRoleSpecificResponse t this prompt ctx =
     js_or (js_get (responses t) (role this)) (Str (''Analysis completed for '' @ role this))"

text \<open>
  \<open>execute\<close> waits for \<^verbatim>\<open>Math.random() * 5000 + 2000\<close> milliseconds (the argument \<open>delay\<close>)
  and returns the canned response. A result is \<open>Inr\<close> of the returned value or \<open>Inl\<close> of the
  message of the error thrown.
\<close>

definition execute ::
    "role_templates \<Rightarrow> nat \<Rightarrow> AIAgent \<Rightarrow> js_val \<Rightarrow> string option \<Rightarrow> string + js_val" where
  "execute t delay this prompt ctx = Inr (generateRoleSpecificResponse t this prompt ctx)"

text \<open>
  The variant of the same file that calls the model (the second part of src/README.md).
  \<open>api_key\<close> is \<^verbatim>\<open>process.env.CEREBRAS_API_KEY\<close>; \<open>create\<close> is the client's
  \<^verbatim>\<open>chat.completions.create\<close>, given the system and the user message, which rejects
  (\<open>Inl\<close>) or resolves with the content of the first choice, if there is one.
\<close>

definition execute_cerebras ::
    "string option \<Rightarrow> (string \<Rightarrow> string \<Rightarrow> string + string option) \<Rightarrow> role_templates \<Rightarrow>
     AIAgent \<Rightarrow> js_val \<Rightarrow> string option \<Rightarrow> string + js_val" where
  "execute_cerebras api_key create t this prompt ctx =
     (if falsy api_key then Inr (generateRoleSpecificResponse t this prompt ctx)
      else
        (case create (generateSystemPrompt (role this) (goal this) (backstory this))
                (if falsy ctx then to_string prompt
                 else ''Context from previous agents:'' @ [NL] @ the ctx @ [NL, NL] @
                      ''New requirements:'' @ [NL] @ to_string prompt) of
           Inr c \<Rightarrow> Inr (Str (if falsy c then ''No response generated'' else the c))
         | Inl e \<Rightarrow> Inl (''Cerebras AI error for agent '' @ role this)))"

section \<open>The agent step of the event-emitter service (server/services/code-generation.ts)\<close>

record CGAgent =
  cg_id :: string
  cg_role :: string
  cg_name :: string
  cg_description :: string
  cg_systemPrompt :: string

record AgentResponse =
  agentId :: string
  resp_role :: string
  resp_content :: string

text \<open>
  The four texts of \<open>generateRealisticResponse\<close> interpolate the request into template
  literals with characters above 255; they are a parameter of the model.
\<close>

record realistic_templates =
  pm_realistic :: "GenerationRequest \<Rightarrow> string"
  arch_realistic :: "GenerationRequest \<Rightarrow> string"
  dev_realistic :: "GenerationRequest \<Rightarrow> string"
  qa_realistic :: "GenerationRequest \<Rightarrow> string"

definition generateRealisticResponse ::
    "realistic_templates \<Rightarrow> CGAgent \<Rightarrow> GenerationRequest \<Rightarrow> AgentResponse list \<Rightarrow> string" where
  "generateRealisticResponse t a request previousResults =
     (if cg_id a = ''pm'' then pm_realistic t request
      else if cg_id a = ''arch'' then arch_realistic t request
      else if cg_id a = ''dev'' then dev_realistic t request
      else if cg_id a = ''qa'' then qa_realistic t request
      else cg_role a @ '' analysis complete for '' @ requirements request)"

definition generateFallbackResponse :: "CGAgent \<Rightarrow> GenerationRequest \<Rightarrow> string" where
  "generateFallbackResponse a request = join [NL]
     [''# '' @ cg_role a @ '' Response'',
      [],
      ''I'' @ [SQ] @ ''ve analyzed your request: \"'' @ requirements request @ ''\"'',
      [],
      ''For a '' @ framework request @ '' application using '' @ language request @ '', I recommend:'',
      [],
      ''1. **Modern Architecture**: Utilizing current best practices'',
      ''2. **Scalable Design**: Built for growth and maintainability  '',
      ''3. **Security First**: Implementing proper security measures'',
      ''4. **Performance Optimized**: Fast and efficient implementation'',
      [],
      ''This '' @ toLowerCase (cg_role a) @ '' assessment ensures your project will be production-ready and meet industry standards.'']"

text \<open>
  \<open>processAgent\<close>. \<open>cerebras\<close> is the client, absent when the service was constructed
  without \<^verbatim>\<open>CEREBRAS_API_KEY\<close>; when present it is the function \<open>create\<close> described above.
  The only call that can throw stands in a \<^verbatim>\<open>try\<close> whose \<^verbatim>\<open>catch\<close> substitutes the fallback
  response, so no error leaves the function.
\<close>

definition processAgent ::
    "(string \<Rightarrow> string \<Rightarrow> string + string option) option \<Rightarrow> realistic_templates \<Rightarrow>
     CGAgent \<Rightarrow> GenerationRequest \<Rightarrow> AgentResponse list \<Rightarrow> AgentResponse" where
  "processAgent cerebras t a request previousResults =
     (let ctx = (if 0 < length previousResults
                 then ''Previous work from other agents:'' @ [NL] @
                      join [NL, NL] (map (\<lambda>r. resp_role r @ '':'' @ [NL] @ resp_content r) previousResults)
                 else []);
          userPrompt = trim (join [NL]
            [[],
             ''Project Requirements: '' @ requirements request,
             ''Framework: '' @ framework request,
             ''Language: '' @ language request,
             [],
             ctx,
             [],
             ''Please provide your '' @ cg_role a @ '' response for this project.'',
             ''    '']);
          c = (case cerebras of
                 Some create \<Rightarrow>
                   (case create (cg_systemPrompt a) userPrompt of
                      Inr m \<Rightarrow> if falsy m then cg_role a @ '' response generated'' else the m
                    | Inl e \<Rightarrow> generateFallbackResponse a request)
               | None \<Rightarrow> generateRealisticResponse t a request previousResults)
      in \<lparr>agentId = cg_id a, resp_role = cg_role a, resp_content = c\<rparr>)"

section \<open>The crew service (server/services/crew.ts)\<close>

text \<open>
  Values of type \<^verbatim>\<open>Date\<close> (start and end times of tasks and jobs, event timestamps, the
  duration in the completion event) are left out of tasks, jobs and events; the clock
  appears only where the service sets a timer. \<open>job_progress\<close> is the exact quotient; the
  source computes it in double precision, which is exact for the four tasks of a job.
\<close>

datatype task_status = Pending | InProgress | Completed | Failed

record Task =
  task_id :: string
  description :: js_val
  expectedOutput :: js_val
  agent :: AIAgent
  status :: task_status
  progress :: nat
  task_output :: "js_val option"

datatype job_status = Job_pending | Job_in_progress | Job_completed | Job_failed

record JobStatus =
  job_id :: string
  job_status :: job_status
  job_progress :: rat
  currentAgent :: "string option"
  tasks :: "Task list"

record CodeFile =
  path :: string
  file_content :: string
  file_language :: string

record AgentResult =
  result_role :: string
  result_content :: js_val

record CodeGenerationResult =
  result_jobId :: string
  files :: "CodeFile list"
  result_agents :: "AgentResult list"
  result_status :: job_status

text \<open>The messages handed to \<open>broadcastToClients\<close>, by their \<^verbatim>\<open>type\<close>, with their \<^verbatim>\<open>data\<close>.\<close>

datatype crew_event =
    Generation_started string GenerationRequest
  | Agent_started string string js_val
  | Agent_completed string string js_val
  | Agent_progress string string nat
  | Generation_completed CodeGenerationResult
  | Generation_failed string string

text \<open>
  The service object: the job map, the agents made by the constructor, the messages
  broadcast so far (oldest first), the pending \<^verbatim>\<open>setTimeout\<close> callbacks (the time each is due
  and the job id it deletes) and the clock in milliseconds.
\<close>

record CrewService =
  activeJobs :: "string \<rightharpoonup> JobStatus"
  agents :: "AIAgent list"
  broadcast :: "crew_event list"
  timers :: "(nat \<times> string) list"
  now :: nat

definition new_CrewService :: CrewService where
  "new_CrewService =
     \<lparr>activeJobs = Map.empty, agents = createAgents, broadcast = [], timers = [], now = 0\<rparr>"

definition descriptions :: "GenerationRequest \<Rightarrow> (string \<times> string) list" where
  "descriptions request =
     [(''Product Manager'',
       ''Analyze the following project requirements and create comprehensive specifications: \"'' @
       requirements request @ ''\". Framework: '' @ framework request @ '', Language: '' @
       language request),
      (''Solution Architect'',
       ''Based on the requirements analysis, design a scalable system architecture for a '' @
       framework request @ '' application using '' @ language request),
      (''Senior Developer'',
       ''Implement the system architecture as production-ready code using '' @
       framework request @ '' and '' @ language request),
      (''QA Engineer'',
       ''Create comprehensive test suites and quality assurance documentation for the implemented solution'')]"

definition getTaskDescription :: "string \<Rightarrow> GenerationRequest \<Rightarrow> js_val" where
  "getTaskDescription r request =
     js_or (js_get (descriptions request) r) (Str (''Complete task for '' @ r))"

definition outputs :: "(string \<times> string) list" where
  "outputs =
     [(''Product Manager'',
       ''Detailed project specification with requirements, user stories, and acceptance criteria''),
      (''Solution Architect'',
       ''System architecture diagram, technology stack recommendations, and technical blueprint''),
      (''Senior Developer'',
       ''Complete, production-ready code implementation with proper structure and documentation''),
      (''QA Engineer'',
       ''Comprehensive test suite, quality metrics, and deployment readiness assessment'')]"

definition getExpectedOutput :: "string \<Rightarrow> js_val" where
  "getExpectedOutput r = js_or (js_get outputs r) (Str (''Output for '' @ r))"

text \<open>Decimal digits of an index, for the template \<^verbatim>\<open>${request.jobId}_task_${index}\<close>.\<close>

fun digits :: "nat \<Rightarrow> nat \<Rightarrow> string" where
  "digits 0 n = []"
| "digits (Suc fuel) n =
     (if n < 10 then [''0123456789'' ! n]
      else digits fuel (n div 10) @ [''0123456789'' ! (n mod 10)])"

definition show_nat :: "nat \<Rightarrow> string" where
  "show_nat n = digits (Suc n) n"

definition createTasks :: "AIAgent list \<Rightarrow> GenerationRequest \<Rightarrow> Task list" where
  "createTasks ags request =
     map (\<lambda>(a, index).
            \<lparr>task_id = jobId request @ ''_task_'' @ show_nat index,
             description = getTaskDescription (role a) request,
             expectedOutput = getExpectedOutput (role a),
             agent = a, status = Pending, progress = 0, task_output = None\<rparr>)
         (zip ags [0 ..< length ags])"

text \<open>
  The state of one run of \<open>executeTasks\<close>: the object \<^verbatim>\<open>jobStatus\<close> (the same object the job
  map holds), the local variable \<^verbatim>\<open>context\<close>, and the messages broadcast by the run. Two
  history variables record what the run did: \<open>snapshots\<close> holds the job after each block of
  assignments (what a status query sees at the next \<^verbatim>\<open>await\<close>), and \<open>calls\<close> holds, for each
  invocation of an agent, the task index, the agent, the prompt, the context passed and the
  result.
\<close>

record run =
  job :: JobStatus
  ctx :: string
  sent :: "crew_event list"
  snapshots :: "JobStatus list"
  calls :: "(nat \<times> AIAgent \<times> js_val \<times> string \<times> (string + js_val)) list"

text \<open>Lines 80 to 96: the task enters \<^verbatim>\<open>in_progress\<close> and \<^verbatim>\<open>agent_started\<close> is broadcast.\<close>

definition start_task :: "GenerationRequest \<Rightarrow> nat \<Rightarrow> AIAgent \<Rightarrow> run \<Rightarrow> run" where
  "start_task request i a r =
     (let ts = tasks (job r);
          task = ts ! i;
          j = (job r)\<lparr>tasks := ts[i := task\<lparr>status := InProgress\<rparr>],
                      currentAgent := Some (role a),
                      job_progress := (of_nat i / of_nat (length ts)) * 100\<rparr>
      in r\<lparr>job := j, snapshots := snapshots r @ [j],
            sent := sent r @ [Agent_started (jobId request) (role a) (description task)]\<rparr>)"

text \<open>
  Lines 102 to 133: the output is stored, the task is \<^verbatim>\<open>completed\<close>, the context grows, and
  \<^verbatim>\<open>agent_completed\<close> and the six simulated \<^verbatim>\<open>agent_progress\<close> messages are broadcast.
\<close>

definition complete_task :: "GenerationRequest \<Rightarrow> nat \<Rightarrow> AIAgent \<Rightarrow> js_val \<Rightarrow> run \<Rightarrow> run" where
  "complete_task request i a out r =
     (let ts = tasks (job r);
          task = ts ! i;
          j = (job r)\<lparr>tasks := ts[i := task\<lparr>task_output := Some out, status := Completed\<rparr>]\<rparr>
      in r\<lparr>job := j,
            ctx := ctx r @ [NL, NL] @ role a @ '' Output:'' @ [NL] @ to_string out,
            snapshots := snapshots r @ [j],
            sent := sent r @ [Agent_completed (jobId request) (role a) out] @
                    map (Agent_progress (jobId request) (role a)) [0, 20, 40, 60, 80, 100]\<rparr>)"

text \<open>Lines 135 to 139: the task is \<^verbatim>\<open>failed\<close> and the error is thrown again.\<close>

definition fail_task :: "nat \<Rightarrow> run \<Rightarrow> run" where
  "fail_task i r =
     (let ts = tasks (job r);
          j = (job r)\<lparr>tasks := ts[i := (ts ! i)\<lparr>status := Failed\<rparr>]\<rparr>
      in r\<lparr>job := j, snapshots := snapshots r @ [j]\<rparr>)"

definition log_call ::
    "nat \<Rightarrow> AIAgent \<Rightarrow> js_val \<Rightarrow> string \<Rightarrow> (string + js_val) \<Rightarrow> run \<Rightarrow> run" where
  "log_call i a prompt c res r = r\<lparr>calls := calls r @ [(i, a, prompt, c, res)]\<rparr>"

text \<open>
  The loop of \<open>executeTasks\<close> from index \<open>i\<close>. \<open>exec\<close> is the method \<^verbatim>\<open>agent.execute\<close>; the
  result is the error thrown out of the loop, if any, and the state of the run.
\<close>

function executeTasks_from ::
    "(AIAgent \<Rightarrow> js_val \<Rightarrow> string \<Rightarrow> string + js_val) \<Rightarrow> AIAgent list \<Rightarrow> GenerationRequest \<Rightarrow>
     nat \<Rightarrow> run \<Rightarrow> string option \<times> run" where
  "executeTasks_from exec ags request i r =
     (if i < length (tasks (job r)) then
        (let task = tasks (job r) ! i in
         case find (\<lambda>a. agent_id a = agent_id (agent task)) ags of
           None \<Rightarrow> executeTasks_from exec ags request (Suc i) r
         | Some a \<Rightarrow>
             (let res = exec a (description task) (ctx r);
                  r1 = log_call i a (description task) (ctx r) res (start_task request i a r)
              in case res of
                   Inr out \<Rightarrow>
                     executeTasks_from exec ags request (Suc i) (complete_task request i a out r1)
                 | Inl err \<Rightarrow> (Some err, fail_task i r1)))
      else (None, r))"
  by pat_completeness auto
termination
  by (relation "measure (\<lambda>(exec, ags, request, i, r). length (tasks (job r)) - i)")
     (auto simp: complete_task_def start_task_def log_call_def Let_def)

definition executeTasks ::
    "(AIAgent \<Rightarrow> js_val \<Rightarrow> string \<Rightarrow> string + js_val) \<Rightarrow> AIAgent list \<Rightarrow> GenerationRequest \<Rightarrow>
     JobStatus \<Rightarrow> string option \<times> run" where
  "executeTasks exec ags request jobStatus =
     executeTasks_from exec ags request 0
       \<lparr>job = jobStatus, ctx = [], sent = [], snapshots = [], calls = []\<rparr>"

text \<open>The three files \<open>generateCodeFiles\<close> returns for every job.\<close>

definition app_tsx_content :: string where
  "app_tsx_content = join [NL]
     [''import React from '' @ [SQ] @ ''react'' @ [SQ] @ '';'',
      ''import { BrowserRouter as Router, Routes, Route } from '' @ [SQ] @ ''react-router-dom'' @ [SQ] @ '';'',
      ''import { QueryClient, QueryClientProvider } from '' @ [SQ] @ ''@tanstack/react-query'' @ [SQ] @ '';'',
      ''import Header from '' @ [SQ] @ ''./components/Header'' @ [SQ] @ '';'',
      ''import HomePage from '' @ [SQ] @ ''./pages/HomePage'' @ [SQ] @ '';'',
      ''import '' @ [SQ] @ ''./App.css'' @ [SQ] @ '';'',
      [],
      ''const queryClient = new QueryClient();'',
      [],
      ''function App() {'',
      ''  return ('',
      ''    <QueryClientProvider client={queryClient}>'',
      ''      <Router>'',
      ''        <div className=\"App\">'',
      ''          <Header />'',
      ''          <main>'',
      ''            <Routes>'',
      ''              <Route path=\"/\" element={<HomePage />} />'',
      ''            </Routes>'',
      ''          </main>'',
      ''        </div>'',
      ''      </Router>'',
      ''    </QueryClientProvider>'',
      ''  );'',
      ''}'',
      [],
      ''export default App;'']"

definition header_tsx_content :: string where
  "header_tsx_content = join [NL]
     [''import React from '' @ [SQ] @ ''react'' @ [SQ] @ '';'',
      ''import { Link } from '' @ [SQ] @ ''react-router-dom'' @ [SQ] @ '';'',
      [],
      ''const Header: React.FC = () => {'',
      ''  return ('',
      ''    <header className=\"bg-blue-600 text-white p-4\">'',
      ''      <div className=\"container mx-auto flex justify-between items-center\">'',
      ''        <Link to=\"/\" className=\"text-xl font-bold\">'',
      ''          My App'',
      ''        </Link>'',
      ''        <nav>'',
      ''          <Link to=\"/\" className=\"mx-2 hover:underline\">'',
      ''            Home'',
      ''          </Link>'',
      ''        </nav>'',
      ''      </div>'',
      ''    </header>'',
      ''  );'',
      ''};'',
      [],
      ''export default Header;'']"

definition package_json_content :: string where
  "package_json_content = join [NL]
     [''{'',
      ''  \"name\": \"generated-app\",'',
      ''  \"version\": \"1.0.0\",'',
      ''  \"private\": true,'',
      ''  \"dependencies\": {'',
      ''    \"react\": \"^18.2.0\",'',
      ''    \"react-dom\": \"^18.2.0\",'',
      ''    \"react-router-dom\": \"^6.8.0\",'',
      ''    \"@tanstack/react-query\": \"^4.24.0\",'',
      ''    \"typescript\": \"^4.9.5\"'',
      ''  },'',
      ''  \"scripts\": {'',
      ''    \"start\": \"react-scripts start\",'',
      ''    \"build\": \"react-scripts build\",'',
      ''    \"test\": \"react-scripts test\",'',
      ''    \"eject\": \"react-scripts eject\"'',
      ''  }'',
      ''}'']"
definition generateCodeFiles :: "JobStatus \<Rightarrow> CodeFile list" where
  "generateCodeFiles jobStatus =
     [\<lparr>path = ''src/App.tsx'', file_content = app_tsx_content, file_language = ''typescript''\<rparr>,
      \<lparr>path = ''src/components/Header.tsx'', file_content = header_tsx_content,
       file_language = ''typescript''\<rparr>,
      \<lparr>path = ''package.json'', file_content = package_json_content, file_language = ''json''\<rparr>]"

text \<open>\<^verbatim>\<open>task.output || ''\<close>\<close>

definition output_or_empty :: "js_val option \<Rightarrow> js_val" where
  "output_or_empty out = js_or out (Str [])"

definition completeGeneration :: "string \<Rightarrow> CrewService \<Rightarrow> CrewService" where
  "completeGeneration jid svc =
     (case activeJobs svc jid of
        None \<Rightarrow> svc
      | Some jobStatus \<Rightarrow>
          (let j = jobStatus\<lparr>job_status := Job_completed, job_progress := 100\<rparr>;
               result = \<lparr>result_jobId = jid, files = generateCodeFiles j,
                         result_agents =
                           map (\<lambda>task. \<lparr>result_role = role (agent task),
                                         result_content = output_or_empty (task_output task)\<rparr>)
                               (tasks j),
                         result_status = Job_completed\<rparr>
           in svc\<lparr>activeJobs := (activeJobs svc)(jid \<mapsto> j),
                  broadcast := broadcast svc @ [Generation_completed result],
                  timers := timers svc @ [(now svc + 300000, jid)]\<rparr>))"

text \<open>\<open>failGeneration\<close>; the argument is the message of the error caught.\<close>

definition failGeneration :: "string \<Rightarrow> string \<Rightarrow> CrewService \<Rightarrow> CrewService" where
  "failGeneration jid message svc =
     (case activeJobs svc jid of
        None \<Rightarrow> svc
      | Some jobStatus \<Rightarrow>
          svc\<lparr>activeJobs := (activeJobs svc)(jid \<mapsto> jobStatus\<lparr>job_status := Job_failed\<rparr>),
              broadcast := broadcast svc @
                [Generation_failed jid (if message = [] then ''Generation failed'' else message)]\<rparr>)"

definition initial_job :: "AIAgent list \<Rightarrow> GenerationRequest \<Rightarrow> JobStatus" where
  "initial_job ags request =
     \<lparr>job_id = jobId request, job_status = Job_in_progress, job_progress = 0,
      currentAgent = None, tasks = createTasks ags request\<rparr>"

text \<open>
  \<open>startGeneration\<close>, run to its end. The job map holds the object the run mutates, so the
  entry is the job as the run leaves it when \<open>completeGeneration\<close> or \<open>failGeneration\<close>
  looks it up.
\<close>

definition startGeneration ::
    "(AIAgent \<Rightarrow> js_val \<Rightarrow> string \<Rightarrow> string + js_val) \<Rightarrow> GenerationRequest \<Rightarrow> CrewService \<Rightarrow>
     CrewService" where
  "startGeneration exec request svc =
     (let jobStatus = initial_job (agents svc) request;
          svc1 = svc\<lparr>activeJobs := (activeJobs svc)(jobId request \<mapsto> jobStatus),
                     broadcast := broadcast svc @ [Generation_started (jobId request) request]\<rparr>;
          (err, r) = executeTasks exec (agents svc1) request jobStatus;
          svc2 = svc1\<lparr>activeJobs := (activeJobs svc1)(jobId request \<mapsto> job r),
                      broadcast := broadcast svc1 @ sent r\<rparr>
      in case err of
           None \<Rightarrow> completeGeneration (jobId request) svc2
         | Some message \<Rightarrow> failGeneration (jobId request) message svc2)"

definition getJobStatus :: "string \<Rightarrow> CrewService \<Rightarrow> JobStatus option" where
  "getJobStatus jid svc = activeJobs svc jid"

text \<open>
  The event loop at time \<open>t\<close>: the clock moves to \<open>t\<close> and every timer due by then runs its
  callback, \<^verbatim>\<open>this.activeJobs.delete(jobId)\<close>. A timer is taken to fire at the time it is due.
\<close>

definition advance :: "nat \<Rightarrow> CrewService \<Rightarrow> CrewService" where
  "advance t svc =
     (let due = filter (\<lambda>(d, jid). d \<le> t) (timers svc)
      in svc\<lparr>activeJobs := fold (\<lambda>(d, jid) m. m(jid := None)) due (activeJobs svc),
             timers := filter (\<lambda>(d, jid). \<not> d \<le> t) (timers svc),
             now := max (now svc) t\<rparr>)"

section \<open>The submission route (server/routes.ts)\<close>

datatype http_response = Status400 string | Status200 string

text \<open>
  The handler of \<^verbatim>\<open>POST /api/generate\<close>. \<open>nid\<close> is the value \<^verbatim>\<open>nanoid()\<close> returns. The handler
  answers without waiting for the generation it starts; the state returned is the service
  once that generation has ended.
\<close>

definition post_generate ::
    "(AIAgent \<Rightarrow> js_val \<Rightarrow> string \<Rightarrow> string + js_val) \<Rightarrow> string \<Rightarrow> PartialRequest \<Rightarrow> CrewService \<Rightarrow>
     http_response \<times> CrewService" where
  "post_generate exec nid body svc =
     (if falsy (p_requirements body) \<or> falsy (p_framework body) \<or> falsy (p_language body)
      then (Status400 ''Missing required fields: requirements, framework, language'', svc)
      else
        (let jid = ''job_'' @ nid;
             request = \<lparr>jobId = jid, requirements = trim (the (p_requirements body)),
                        framework = the (p_framework body), language = the (p_language body)\<rparr>
         in (Status200 jid, startGeneration exec request svc)))"

section \<open>The enhanced service (server/src/services/enhanced-code-generation.ts)\<close>

text \<open>The member \<^verbatim>\<open>status\<close> of a job entry: the strings running, completed, failed, cancelled.\<close>

datatype run_status = Running | Run_completed | Run_failed | Cancelled

record JobInfo =
  info_request :: GenerationRequest
  startTime :: nat
  info_status :: run_status
  endTime :: "nat option"
  duration :: "nat option"
  info_error :: "string option"

text \<open>
  The events the service emits, with their payload: \<^verbatim>\<open>generation_failed\<close> (job id, error),
  \<^verbatim>\<open>generation_started\<close> (job id, agent count, request), \<^verbatim>\<open>agent_completed\<close> (job id,
  task id, role, content) and \<^verbatim>\<open>generation_completed\<close> (job id, code, agents, duration).
  Timestamps and the estimated time are left out.
\<close>

datatype emitted_event =
    Failed_event string string
  | Started_event string nat GenerationRequest
  | Agent_completed_event string string string string
  | Completed_event string "string \<rightharpoonup> string" "AgentOutput list" nat

record EnhancedService =
  enh_activeJobs :: "string \<rightharpoonup> JobInfo"
  emitted :: "emitted_event list"
  enh_timers :: "(nat \<times> string) list"
  enh_now :: nat

text \<open>
  The modules that build agents, tasks and the crew (\<^verbatim>\<open>../agents\<close>, \<^verbatim>\<open>../tasks\<close>, \<^verbatim>\<open>../crews\<close>)
  are not among the sources. What they do with the request they are given is a parameter
  of the model, a function from that request to: the calls of the callback
  \<^verbatim>\<open>onTaskOutput\<close> (task id, role, output) made while the crew runs; the outcome of
  \<^verbatim>\<open>crew.kickoff()\<close>, which rejects (\<open>Inl\<close>, with the message if the value thrown is an
  \<^verbatim>\<open>Error\<close>) or resolves with \<^verbatim>\<open>success\<close> and \<^verbatim>\<open>error\<close>; and the list \<^verbatim>\<open>crew.getResults()\<close>
  returns (role and output of each task).
\<close>

record crew_outcome =
  task_outputs :: "(string \<times> string \<times> string) list"
  kickoff :: "string option + (bool \<times> string option)"
  getResults :: "(string \<times> string option) list"

definition sanitizeRequest :: "GenerationRequest \<Rightarrow> GenerationRequest" where
  "sanitizeRequest request =
     request\<lparr>requirements := sanitizeInput (requirements request),
             framework := sanitizeInput (framework request),
             language := sanitizeInput (language request)\<rparr>"

text \<open>The \<^verbatim>\<open>finally\<close> block: a timer that deletes the job entry in five minutes.\<close>

definition schedule_cleanup :: "string \<Rightarrow> EnhancedService \<Rightarrow> EnhancedService" where
  "schedule_cleanup jid svc = svc\<lparr>enh_timers := enh_timers svc @ [(enh_now svc + 300000, jid)]\<rparr>"

text \<open>
  \<open>startGeneration\<close> up to \<^verbatim>\<open>await crew.kickoff()\<close>. The result says whether the function
  goes on to run the crew, and then with which request; on a validation failure it has
  returned, through the \<^verbatim>\<open>finally\<close> block.
\<close>

definition startGeneration_begin ::
    "GenerationRequest \<Rightarrow> EnhancedService \<Rightarrow> GenerationRequest option \<times> EnhancedService" where
  "startGeneration_begin request svc =
     (let validationErrors = validateGenerationRequest (as_partial request) in
      if 0 < length validationErrors then
        (None,
         schedule_cleanup (jobId request)
           (svc\<lparr>emitted := emitted svc @
              [Failed_event (jobId request) (''Validation failed: '' @ join '', '' validationErrors)]\<rparr>))
      else
        (let sanitizedRequest = sanitizeRequest request in
         (Some sanitizedRequest,
          svc\<lparr>enh_activeJobs := (enh_activeJobs svc)(jobId request \<mapsto>
                  \<lparr>info_request = sanitizedRequest, startTime = enh_now svc, info_status = Running,
                   endTime = None, duration = None, info_error = None\<rparr>),
               emitted := emitted svc @ [Started_event (jobId request) 4 sanitizedRequest]\<rparr>)))"

text \<open>The \<^verbatim>\<open>catch\<close> block, then \<^verbatim>\<open>finally\<close>.\<close>

definition generation_failed :: "string \<Rightarrow> string \<Rightarrow> EnhancedService \<Rightarrow> EnhancedService" where
  "generation_failed jid errorMessage svc =
     schedule_cleanup jid
       (svc\<lparr>enh_activeJobs :=
              (case enh_activeJobs svc jid of
                 None \<Rightarrow> enh_activeJobs svc
               | Some jobInfo \<Rightarrow> (enh_activeJobs svc)(jid \<mapsto>
                   jobInfo\<lparr>info_status := Run_failed, info_error := Some errorMessage,
                           endTime := Some (enh_now svc)\<rparr>)),
            emitted := emitted svc @ [Failed_event jid errorMessage]\<rparr>)"

text \<open>
  \<open>startGeneration\<close> from the moment \<^verbatim>\<open>crew.kickoff()\<close> settles. The \<^verbatim>\<open>agent_completed\<close>
  events of the callback were emitted while the crew ran.
\<close>

definition startGeneration_end ::
    "crew_outcome \<Rightarrow> GenerationRequest \<Rightarrow> EnhancedService \<Rightarrow> EnhancedService" where
  "startGeneration_end oc sanitizedRequest svc0 =
     (let jid = jobId sanitizedRequest;
          svc = svc0\<lparr>emitted := emitted svc0 @
                  map (\<lambda>(taskId, agentRole, out). Agent_completed_event jid taskId agentRole out)
                      (task_outputs oc)\<rparr>
      in case kickoff oc of
           Inl thrown \<Rightarrow>
             generation_failed jid (case thrown of Some m \<Rightarrow> m | None \<Rightarrow> ''Unknown error'') svc
         | Inr (success, err) \<Rightarrow>
             if success then
               (let agentOutputs =
                      map (\<lambda>(r, out). \<lparr>out_role = r, content = the out\<rparr>)
                          (filter (\<lambda>(r, out). \<not> falsy out) (getResults oc));
                    compiledCode = compileCodeFiles agentOutputs sanitizedRequest;
                    jobInfo = map_option
                      (\<lambda>j. j\<lparr>info_status := Run_completed, endTime := Some (enh_now svc),
                              duration := Some (enh_now svc - startTime j)\<rparr>)
                      (enh_activeJobs svc jid)
                in schedule_cleanup jid
                     (svc\<lparr>enh_activeJobs :=
                            (case jobInfo of None \<Rightarrow> enh_activeJobs svc
                             | Some j \<Rightarrow> (enh_activeJobs svc)(jid \<mapsto> j)),
                          emitted := emitted svc @
                            [Completed_event jid compiledCode agentOutputs
                               (case jobInfo of None \<Rightarrow> 0 | Some j \<Rightarrow> the (duration j))]\<rparr>))
             else generation_failed jid
                    (if falsy err then ''Crew execution failed'' else the err) svc)"

text \<open>\<open>startGeneration\<close> with nothing else happening while the crew runs.\<close>

definition startGeneration_enhanced ::
    "(GenerationRequest \<Rightarrow> crew_outcome) \<Rightarrow> GenerationRequest \<Rightarrow> EnhancedService \<Rightarrow> EnhancedService" where
  "startGeneration_enhanced crew request svc =
     (case startGeneration_begin request svc of
        (None, svc1) \<Rightarrow> svc1
      | (Some sanitizedRequest, svc1) \<Rightarrow>
          startGeneration_end (crew sanitizedRequest) sanitizedRequest svc1)"

text \<open>\<open>cancelJob\<close>; the data of a success response is the job id and the new status.\<close>

definition cancelJob ::
    "string \<Rightarrow> EnhancedService \<Rightarrow> (string \<times> run_status) response \<times> EnhancedService" where
  "cancelJob jid svc =
     (case enh_activeJobs svc jid of
        None \<Rightarrow> (ErrorResponse ''Job not found'', svc)
      | Some j \<Rightarrow>
          if info_status j = Run_completed \<or> info_status j = Run_failed
          then (ErrorResponse ''Job already finished'', svc)
          else
            (SuccessResponse (jid, Cancelled),
             svc\<lparr>enh_activeJobs := (enh_activeJobs svc)(jid \<mapsto>
                    j\<lparr>info_status := Cancelled, endTime := Some (enh_now svc)\<rparr>),
                 emitted := emitted svc @ [Failed_event jid ''Job cancelled by user'']\<rparr>))"

section \<open>Observations on a run\<close>

text \<open>How many tasks of a job are \<^verbatim>\<open>in_progress\<close>.\<close>

definition in_progress_count :: "JobStatus \<Rightarrow> nat" where
  "in_progress_count j = length (filter (\<lambda>t. status t = InProgress) (tasks j))"

text \<open>The roles of the \<^verbatim>\<open>agent_started\<close> messages of a log, in the order of the log.\<close>

fun started_role :: "crew_event \<Rightarrow> string list" where
  "started_role (Agent_started jid r d) = [r]"
| "started_role e = []"

definition started_roles :: "crew_event list \<Rightarrow> string list" where
  "started_roles es = concat (map started_role es)"

text \<open>
  The order of the agent messages of one job. Between the messages of a job the stage is
  idle (no agent started yet), busy with a role (started, not completed) or done with a
  role. A start is in order when no role is busy; a completion when its role is the busy
  one; a progress message when its role is the one just done. A log is sequential when every
  message is in order.
\<close>

datatype phase = Idle | Busy string | Done string

fun phase_step :: "phase \<Rightarrow> crew_event \<Rightarrow> phase option" where
  "phase_step p (Agent_started jid r d) = (case p of Busy b \<Rightarrow> None | _ \<Rightarrow> Some (Busy r))"
| "phase_step p (Agent_completed jid r out) = (if p = Busy r then Some (Done r) else None)"
| "phase_step p (Agent_progress jid r n) = (if p = Done r then Some (Done r) else None)"
| "phase_step p e = Some p"

fun phase_after :: "phase \<Rightarrow> crew_event list \<Rightarrow> phase option" where
  "phase_after p [] = Some p"
| "phase_after p (e # es) = (case phase_step p e of None \<Rightarrow> None | Some q \<Rightarrow> phase_after q es)"

definition sequential :: "crew_event list \<Rightarrow> bool" where
  "sequential es = (phase_after Idle es \<noteq> None)"

text \<open>
  What a completed task adds to the context, and the context accumulated from a list of
  tasks.
\<close>

definition context_piece :: "Task \<Rightarrow> string" where
  "context_piece t =
     (case task_output t of
        Some out \<Rightarrow>
          if status t = Completed
          then [NL, NL] @ role (agent t) @ '' Output:'' @ [NL] @ to_string out else []
      | None \<Rightarrow> [])"

definition accumulated :: "Task list \<Rightarrow> string" where
  "accumulated ts = concat (map context_piece ts)"

text \<open>
  The state of a run between stages, when the tasks carry the agents \<open>A\<close> and the loop is
  about to look at index \<open>i\<close>: the tasks before \<open>i\<close> are completed and have an output, the
  tasks from \<open>i\<close> on are pending (also in every snapshot taken so far), the context is the
  one accumulated from the tasks before \<open>i\<close>, the agents were invoked once for each index
  below \<open>i\<close>, each with the context accumulated from the tasks before its index and each
  with success, at most one task was in progress in any snapshot, the start messages carry
  the roles of the first \<open>i\<close> agents, and the log is sequential with no role busy.
\<close>

definition stage_inv :: "AIAgent list \<Rightarrow> nat \<Rightarrow> run \<Rightarrow> bool" where
  "stage_inv A i r =
     (map agent (tasks (job r)) = A \<and> i \<le> length A
      \<and> (\<forall>j<i. status (tasks (job r) ! j) = Completed \<and> task_output (tasks (job r) ! j) \<noteq> None)
      \<and> (\<forall>j. i \<le> j \<and> j < length A \<longrightarrow> status (tasks (job r) ! j) = Pending)
      \<and> ctx r = accumulated (take i (tasks (job r)))
      \<and> map fst (calls r) = [0 ..< i]
      \<and> (\<forall>(k, a, p, c, res) \<in> set (calls r).
            a = A ! k \<and> c = accumulated (take k (tasks (job r))) \<and> (\<exists>out. res = Inr out))
      \<and> (\<forall>s \<in> set (snapshots r).
            in_progress_count s \<le> 1 \<and> length (tasks s) = length A
            \<and> (\<forall>j. i \<le> j \<and> j < length A \<longrightarrow> status (tasks s ! j) = Pending))
      \<and> started_roles (sent r) = map role (take i A)
      \<and> (\<exists>p. phase_after Idle (sent r) = Some p \<and> (\<forall>b. p \<noteq> Busy b)))"

text \<open>
  The state of a run that ended because the agent of index \<open>k\<close> threw an error with
  message \<open>e\<close>.
\<close>

definition failed_at :: "AIAgent list \<Rightarrow> nat \<Rightarrow> string \<Rightarrow> run \<Rightarrow> bool" where
  "failed_at A k e r =
     (map agent (tasks (job r)) = A \<and> k < length A
      \<and> (\<forall>j<k. status (tasks (job r) ! j) = Completed \<and> task_output (tasks (job r) ! j) \<noteq> None)
      \<and> status (tasks (job r) ! k) = Failed
      \<and> (\<forall>j. k < j \<and> j < length A \<longrightarrow> status (tasks (job r) ! j) = Pending)
      \<and> map fst (calls r) = [0 ..< Suc k]
      \<and> (\<forall>(k', a, p, c, res) \<in> set (calls r).
            a = A ! k' \<and> c = accumulated (take k' (tasks (job r)))
            \<and> (if k' = k then res = Inl e else \<exists>out. res = Inr out))
      \<and> (\<forall>s \<in> set (snapshots r).
            in_progress_count s \<le> 1 \<and> length (tasks s) = length A
            \<and> (\<forall>j. k < j \<and> j < length A \<longrightarrow> status (tasks s ! j) = Pending))
      \<and> started_roles (sent r) = map role (take (Suc k) A)
      \<and> phase_after Idle (sent r) = Some (Busy (role (A ! k))))"

text \<open>The fixed order of the roles.\<close>

definition role_order :: "string list" where
  "role_order = [''Product Manager'', ''Solution Architect'', ''Senior Developer'', ''QA Engineer'']"

section \<open>Example inputs\<close>

text \<open>The submission of the specification's example, under a job id.\<close>

definition example_request :: GenerationRequest where
  "example_request =
     \<lparr>jobId = ''job_1'', requirements = ''Build a todo app'', framework = ''react'',
      language = ''python''\<rparr>"

definition new_EnhancedService :: EnhancedService where
  "new_EnhancedService =
     \<lparr>enh_activeJobs = Map.empty, emitted = [], enh_timers = [], enh_now = 0\<rparr>"

text \<open>A crew whose four tasks succeed, each with a short output.\<close>

definition example_crew :: "GenerationRequest \<Rightarrow> crew_outcome" where
  "example_crew request =
     \<lparr>task_outputs = [],
      kickoff = Inr (True, None),
      getResults =
        [(''Product Manager'', Some ''spec''), (''Solution Architect'', Some ''design''),
         (''Senior Developer'', Some ''code''), (''QA Engineer'', Some ''checks'')]\<rparr>"

text \<open>Canned responses standing for the four template literals.\<close>

definition example_templates :: role_templates where
  "example_templates =
     \<lparr>pm_response = ''# Product Requirements Analysis'',
      sa_response = ''# System Architecture Design'',
      sd_response = ''# Implementation Plan'',
      qa_response = ''# Quality Assurance Report''\<rparr>"

text \<open>An agent method that throws for the Senior Developer and answers otherwise.\<close>

definition failing_exec :: "AIAgent \<Rightarrow> js_val \<Rightarrow> string \<Rightarrow> string + js_val" where
  "failing_exec a prompt c =
     (if role a = ''Senior Developer'' then Inl ''Cerebras AI error for agent Senior Developer''
      else execute example_templates 2000 a prompt (Some c))"

definition mock_exec :: "AIAgent \<Rightarrow> js_val \<Rightarrow> string \<Rightarrow> string + js_val" where
  "mock_exec a prompt c = execute example_templates 2000 a prompt (Some c)"

text \<open>
  The enhanced service after the example job has run to completion, and after the example
  job was cancelled while its crew was running.
\<close>

definition completed_service :: EnhancedService where
  "completed_service = startGeneration_enhanced example_crew example_request new_EnhancedService"

definition cancelled_service :: EnhancedService where
  "cancelled_service =
     snd (cancelJob ''job_1'' (snd (startGeneration_begin example_request new_EnhancedService)))"

text \<open>The outputs of the four roles, as \<open>compileCodeFiles\<close> receives them.\<close>

definition example_outputs :: "AgentOutput list" where
  "example_outputs =
     [\<lparr>out_role = ''Product Manager'', content = ''spec''\<rparr>,
      \<lparr>out_role = ''Solution Architect'', content = ''design''\<rparr>,
      \<lparr>out_role = ''Senior Developer'', content = ''code''\<rparr>,
      \<lparr>out_role = ''QA Engineer'', content = ''checks''\<rparr>]"

section \<open>Validation of a submission\<close>

lemma trim_Nil: "trim [] = []"
  by (simp add: trim_def)

lemma validate_empty:
  "validateGenerationRequest \<lparr>p_requirements = Some [], p_framework = Some [], p_language = Some []\<rparr> =
     [''Requirements are required and cannot be empty'',
      ''Framework is required and cannot be empty'',
      ''Language is required and cannot be empty'']"
  by (simp add: validateGenerationRequest_def falsy_def trim_Nil)

text \<open>
  Claim C4. A submission whose requirements, framework and language are all empty is
  rejected with an error naming all three fields, and no job comes into being:
  \<^item> \<open>validateGenerationRequest\<close> returns the three field messages, in order;
  \<^item> the route answers 400 with a message naming the three fields, makes no job id, starts
    no generation and leaves the crew service as it was (no job, no task, no broadcast);
  \<^item> \<open>startGeneration\<close> of the enhanced service, called with such a request, leaves the job
    map as it was and emits one \<^verbatim>\<open>generation_failed\<close> event listing the three messages.
\<close>

theorem C4_empty_submission_rejected:
  fixes exec nid svc jid esvc crew
  defines "body \<equiv> \<lparr>p_requirements = Some [], p_framework = Some [], p_language = Some []\<rparr>"
  defines "request \<equiv> \<lparr>jobId = jid, requirements = [], framework = [], language = []\<rparr>"
  shows "validateGenerationRequest body =
           [''Requirements are required and cannot be empty'',
            ''Framework is required and cannot be empty'',
            ''Language is required and cannot be empty'']
       \<and> post_generate exec nid body svc =
           (Status400 ''Missing required fields: requirements, framework, language'', svc)
       \<and> enh_activeJobs (startGeneration_enhanced crew request esvc) = enh_activeJobs esvc
       \<and> emitted (startGeneration_enhanced crew request esvc) =
           emitted esvc @
             [Failed_event jid
               ''Validation failed: Requirements are required and cannot be empty, Framework is required and cannot be empty, Language is required and cannot be empty'']"
  unfolding body_def request_def
  by (simp add: validate_empty post_generate_def falsy_def startGeneration_enhanced_def
        startGeneration_begin_def as_partial_def schedule_cleanup_def)

section \<open>Evaluation of the example inputs\<close>

lemma sanitize_example_requirements: "sanitizeInput ''Build a todo app'' = ''Build a todo app''"
  by code_simp

lemma sanitize_example_framework: "sanitizeInput ''react'' = ''react''"
  by code_simp

lemma sanitize_example_language: "sanitizeInput ''python'' = ''python''"
  by code_simp

lemma validate_example: "validateGenerationRequest (as_partial example_request) = []"
  by code_simp

lemma sanitize_example_request: "sanitizeRequest example_request = example_request"
  by (simp add: sanitizeRequest_def example_request_def sanitize_example_requirements
        sanitize_example_framework sanitize_example_language)

lemma example_begin:
  "startGeneration_begin example_request new_EnhancedService =
    (Some example_request,
     \<lparr>enh_activeJobs =
        [''job_1'' \<mapsto> \<lparr>info_request = example_request, startTime = 0, info_status = Running,
                       endTime = None, duration = None, info_error = None\<rparr>],
      emitted = [Started_event ''job_1'' 4 example_request], enh_timers = [], enh_now = 0\<rparr>)"
  by (simp add: startGeneration_begin_def validate_example sanitize_example_request
        new_EnhancedService_def Let_def)
     (simp add: example_request_def)

lemma cancelled_service_eval:
  "cancelled_service =
     \<lparr>enh_activeJobs =
        [''job_1'' \<mapsto> \<lparr>info_request = example_request, startTime = 0, info_status = Cancelled,
                       endTime = Some 0, duration = None, info_error = None\<rparr>],
      emitted = [Started_event ''job_1'' 4 example_request,
                 Failed_event ''job_1'' ''Job cancelled by user''],
      enh_timers = [], enh_now = 0\<rparr>"
  by (simp add: cancelled_service_def example_begin cancelJob_def)

lemma completed_service_job:
  "enh_activeJobs completed_service ''job_1'' =
     Some \<lparr>info_request = example_request, startTime = 0, info_status = Run_completed,
           endTime = Some 0, duration = Some 0, info_error = None\<rparr>"
  by (simp add: completed_service_def startGeneration_enhanced_def example_begin
        startGeneration_end_def example_crew_def schedule_cleanup_def Let_def)
     (simp add: example_request_def)

section \<open>Cancellation\<close>

text \<open>
  Claim C6, as the code has it. When the job is \<^verbatim>\<open>completed\<close> or \<^verbatim>\<open>failed\<close>, \<open>cancelJob\<close>
  returns the error response \<^verbatim>\<open>Job already finished\<close> and the service is exactly as before:
  the job entry, its status and every other member are unchanged and no event is emitted.
  Calling it again therefore gives the same answer.
\<close>

theorem C6_cancel_finished_job:
  assumes "enh_activeJobs svc jid = Some j"
    and "info_status j = Run_completed \<or> info_status j = Run_failed"
  shows "cancelJob jid svc = (ErrorResponse ''Job already finished'', svc)
       \<and> cancelJob jid (snd (cancelJob jid svc)) = cancelJob jid svc"
  using assms by (auto simp: cancelJob_def)

theorem C6_cancel_finished_job_witness:
  "map_option info_status (enh_activeJobs completed_service ''job_1'') = Some Run_completed
   \<and> cancelJob ''job_1'' completed_service = (ErrorResponse ''Job already finished'', completed_service)
   \<and> cancelJob ''job_1'' (snd (cancelJob ''job_1'' completed_service)) =
       cancelJob ''job_1'' completed_service"
  using C6_cancel_finished_job [OF completed_service_job]
  by (simp add: completed_service_job)

text \<open>
  The claim as stated also covers a job that is already \<^verbatim>\<open>cancelled\<close>. The guard of
  \<open>cancelJob\<close> names \<^verbatim>\<open>completed\<close> and \<^verbatim>\<open>failed\<close> only: cancelling the cancelled example job
  succeeds once more and emits a further \<^verbatim>\<open>generation_failed\<close> event.
\<close>

theorem C6_cancel_cancelled_job_counterexample:
  "map_option info_status (enh_activeJobs cancelled_service ''job_1'') = Some Cancelled
   \<and> fst (cancelJob ''job_1'' cancelled_service) = SuccessResponse (''job_1'', Cancelled)
   \<and> emitted (snd (cancelJob ''job_1'' cancelled_service)) =
       emitted cancelled_service @ [Failed_event ''job_1'' ''Job cancelled by user'']"
  by (simp add: cancelled_service_eval cancelJob_def)

section \<open>Artifact assembly\<close>

lemma ascii_upper_subset: "set ''ABCDEFGHIJKLMNOPQRSTUVWXYZ'' \<subseteq> set upper_chars"
  unfolding upper_chars_def by (simp only: set_append) blast

lemma ascii_upper_not_lower: "set ''ABCDEFGHIJKLMNOPQRSTUVWXYZ'' \<inter> set lower_chars = {}"
  by (simp add: lower_chars_def)

lemma lower_char_not_upper: "lower_char c \<notin> set ''ABCDEFGHIJKLMNOPQRSTUVWXYZ''"
proof (cases "map_of (zip upper_chars lower_chars) c")
  case None
  have len: "length upper_chars = length lower_chars"
    by (simp add: upper_chars_def lower_chars_def)
  from None have "c \<notin> fst ` set (zip upper_chars lower_chars)"
    by (simp add: map_of_eq_None_iff)
  then have "c \<notin> set upper_chars"
    using len by (metis map_fst_zip set_map)
  moreover have "lower_char c = c"
    by (simp add: lower_char_def None)
  ultimately show ?thesis
    using ascii_upper_subset by auto
next
  case (Some d)
  then have "d \<in> set lower_chars"
    by (meson in_set_zipE map_of_SomeD)
  moreover have "lower_char c = d"
    by (simp add: lower_char_def Some)
  ultimately show ?thesis
    using ascii_upper_not_lower by auto
qed

lemma toLowerCase_no_upper:
  "c \<in> set (toLowerCase s) \<Longrightarrow> c \<notin> set ''ABCDEFGHIJKLMNOPQRSTUVWXYZ''"
  using lower_char_not_upper by (auto simp: toLowerCase_def simp del: set_simps)

lemma set_replace_ws_runs: "set (replace_ws_runs rep s) \<subseteq> set rep \<union> set s"
proof (induction rep s rule: replace_ws_runs.induct)
  case (1 rep)
  then show ?case by simp
next
  case (2 rep c cs)
  have "set (dropWhile js_whitespace cs) \<subseteq> set cs"
    by (simp add: set_dropWhileD subsetI)
  with 2 show ?case by (auto split: if_splits)
qed

text \<open>The key of the default branch is never one of the fixed upper-case names.\<close>

lemma default_key_no_upper:
  "c \<in> set (replace_ws_runs ''_'' (toLowerCase r) @ ''.md'') \<Longrightarrow>
   c \<notin> set ''ABCDEFGHIJKLMNOPQRSTUVWXYZ''"
proof -
  assume "c \<in> set (replace_ws_runs ''_'' (toLowerCase r) @ ''.md'')"
  then consider "c \<in> set ''_.md''" | "c \<in> set (toLowerCase r)"
    using set_replace_ws_runs [of "''_''" "toLowerCase r"] by auto
  then show ?thesis
  proof cases
    case 1
    then show ?thesis by auto
  next
    case 2
    then show ?thesis by (rule toLowerCase_no_upper)
  qed
qed

lemma default_key_not_TEST_PLAN:
  "replace_ws_runs ''_'' (toLowerCase r) @ ''.md'' \<noteq> ''TEST_PLAN.md''"
proof
  assume eq: "replace_ws_runs ''_'' (toLowerCase r) @ ''.md'' = ''TEST_PLAN.md''"
  have "CHR ''T'' \<in> set ''TEST_PLAN.md''" by simp
  then have "CHR ''T'' \<in> set (replace_ws_runs ''_'' (toLowerCase r) @ ''.md'')"
    by (simp only: eq)
  from default_key_no_upper [OF this] show False by simp
qed

text \<open>The extension: what \<open>getFileExtension\<close> can return, as a string.\<close>

lemma getFileExtension_cases:
  "getFileExtension lang \<in> Str ` snd ` set extensions \<union> {Str ''txt''} \<union>
     Inherited ` set object_prototype_names"
proof (cases "map_of extensions (toLowerCase lang)")
  case None
  then show ?thesis
    by (simp add: getFileExtension_def js_get_def js_or_def)
next
  case (Some e)
  then have "(toLowerCase lang, e) \<in> set extensions"
    by (rule map_of_SomeD)
  then have "e \<in> snd ` set extensions"
    by force
  then show ?thesis using Some
    by (auto simp add: getFileExtension_def js_get_def js_or_def)
qed

lemma extension_last:
  "to_string (getFileExtension lang) \<noteq> [] \<and> last (to_string (getFileExtension lang)) \<noteq> CHR ''d''"
  using getFileExtension_cases [of lang]
  by (auto simp add: extensions_def object_prototype_names_def to_string_def)

lemma default_key_not_tests:
  "replace_ws_runs ''_'' (toLowerCase r) @ ''.md'' \<noteq> ''tests.'' @ to_string (getFileExtension lang)"
proof
  assume eq: "replace_ws_runs ''_'' (toLowerCase r) @ ''.md'' = ''tests.'' @ to_string (getFileExtension lang)"
  have "last (replace_ws_runs ''_'' (toLowerCase r) @ ''.md'') = CHR ''d''"
    by simp
  moreover have "last (''tests.'' @ to_string (getFileExtension lang)) = last (to_string (getFileExtension lang))"
    using extension_last [of lang] by simp
  ultimately show False
    using eq extension_last [of lang] by simp
qed


lemma compile_step_qa_entries:
  assumes "m (''tests.'' @ to_string (getFileExtension lang)) = m ''TEST_PLAN.md''"
  shows "compile_step request (getFileExtension lang) x m (''tests.'' @ to_string (getFileExtension lang)) =
         compile_step request (getFileExtension lang) x m ''TEST_PLAN.md''
       \<and> compile_step request (getFileExtension lang) x m ''TEST_PLAN.md'' =
           (if toLowerCase (out_role x) = ''qa engineer'' then Some (content x) else m ''TEST_PLAN.md'')"
  using assms default_key_not_tests [of "out_role x" lang] default_key_not_TEST_PLAN [of "out_role x"]
  by (simp add: compile_step_def Let_def)

lemma compile_fold_qa:
  "fold (compile_step request (getFileExtension lang)) outs Map.empty
        (''tests.'' @ to_string (getFileExtension lang)) =
   fold (compile_step request (getFileExtension lang)) outs Map.empty ''TEST_PLAN.md''
   \<and> fold (compile_step request (getFileExtension lang)) outs Map.empty ''TEST_PLAN.md'' =
       (if filter (\<lambda>x. toLowerCase (out_role x) = ''qa engineer'') outs = [] then None
        else Some (content (last (filter (\<lambda>x. toLowerCase (out_role x) = ''qa engineer'') outs))))"
proof (induction outs rule: rev_induct)
  case Nil
  then show ?case by simp
next
  case (snoc x xs)
  from compile_step_qa_entries [OF conjunct1 [OF snoc.IH], where x = x and request = request]
  show ?case using snoc.IH by simp
qed

text \<open>
  Claim C9. When the agent outputs contain one for the QA Engineer (the role is compared
  in lower case), the entries \<^verbatim>\<open>TEST_PLAN.md\<close> and \<^verbatim>\<open>tests.<ext>\<close> of the assembled map are equal,
  and both are the content of the QA Engineer output, verbatim (of the last one, should there
  be several).
\<close>

theorem C9_test_plan_equals_tests:
  assumes "\<exists>x \<in> set agentOutputs. toLowerCase (out_role x) = ''qa engineer''"
  shows "compileCodeFiles agentOutputs request ''TEST_PLAN.md'' =
           compileCodeFiles agentOutputs request (''tests.'' @ to_string (getFileExtension (language request)))
       \<and> compileCodeFiles agentOutputs request ''TEST_PLAN.md'' =
           Some (content (last (filter (\<lambda>x. toLowerCase (out_role x) = ''qa engineer'') agentOutputs)))"
proof -
  from assms have ne: "filter (\<lambda>x. toLowerCase (out_role x) = ''qa engineer'') agentOutputs \<noteq> []"
    by (simp add: filter_empty_conv)
  show ?thesis
    using compile_fold_qa [of request "language request" agentOutputs] ne
    by (simp add: compileCodeFiles_def)
qed

lemma lower_qa_engineer: "toLowerCase ''QA Engineer'' = ''qa engineer''"
  by code_simp

lemma extension_python: "getFileExtension ''python'' = Str ''py''"
  by code_simp

lemma lower_example_roles:
  "toLowerCase ''Product Manager'' = ''product manager''"
  "toLowerCase ''Solution Architect'' = ''solution architect''"
  "toLowerCase ''Senior Developer'' = ''senior developer''"
  by code_simp+

theorem C9_test_plan_equals_tests_witness:
  "toLowerCase (out_role (last example_outputs)) = ''qa engineer''
   \<and> compileCodeFiles example_outputs example_request ''TEST_PLAN.md'' = Some ''checks''
   \<and> compileCodeFiles example_outputs example_request ''tests.py'' = Some ''checks''"
proof -
  have qa: "\<exists>x \<in> set example_outputs. toLowerCase (out_role x) = ''qa engineer''"
    by (simp add: example_outputs_def lower_qa_engineer)
  have l: "last (filter (\<lambda>x. toLowerCase (out_role x) = ''qa engineer'') example_outputs) =
        \<lparr>out_role = ''QA Engineer'', content = ''checks''\<rparr>"
    by (simp add: example_outputs_def lower_qa_engineer lower_example_roles)
  have e: "''tests.'' @ to_string (getFileExtension (language example_request)) = ''tests.py''"
    by (simp add: example_request_def extension_python to_string_def)
  have r: "toLowerCase (out_role (last example_outputs)) = ''qa engineer''"
    by (simp add: example_outputs_def lower_qa_engineer)
  note c9 = C9_test_plan_equals_tests [OF qa, of example_request]
  have a: "compileCodeFiles example_outputs example_request ''TEST_PLAN.md'' = Some ''checks''"
    using conjunct2 [OF c9] by (simp add: l)
  have b: "compileCodeFiles example_outputs example_request ''TEST_PLAN.md'' =
           compileCodeFiles example_outputs example_request ''tests.py''"
    using conjunct1 [OF c9] by (simp only: e)
  have c: "compileCodeFiles example_outputs example_request ''tests.py'' = Some ''checks''"
    unfolding b [symmetric] by (rule a)
  from r a c show ?thesis by (intro conjI)
qed

end
